theory Spec2Isabelle
  imports Main "HOL-Library.Word"
begin

section \<open>Promises, rejection reasons and the retry decorator\<close>

text \<open>
  A rejection reason is any JavaScript value. What the code looks at is whether the
  value is nullish (reading a property of it throws) and what its \<^verbatim>\<open>status\<close> property
  is; the rest of the value is kept as a message.
\<close>

datatype reason = Nullish | Reason "int option" string

text \<open>
  The state a promise is observed in by a caller that awaits it: fulfilled with a value,
  rejected with a reason, or never settled.
\<close>

datatype 'a outcome = Resolved 'a | Rejected reason | Pending

datatype 'args call = Invoke_original 'args | Invoke_fetchNewToken

text \<open>
  \<^verbatim>\<open>requiresToken\<close> replaces a method by
  \<^verbatim>\<open>original.apply(instance, args).catch(error => ...)\<close>. The wrapped method and
  \<^verbatim>\<open>fetchNewToken\<close> act on the state \<open>'s\<close> of the outside world (the token store, the
  remote service) and are parameters. The third component of the result lists the
  invocations the wrapper made, in order.
\<close>

definition requiresToken ::
  "('args \<Rightarrow> 's \<Rightarrow> 'r outcome \<times> 's) \<Rightarrow> ('s \<Rightarrow> 'u outcome \<times> 's) \<Rightarrow>
   'args \<Rightarrow> 's \<Rightarrow> 'r outcome \<times> 's \<times> 'args call list" where
  "requiresToken original fetchNewToken args s =
     (case original args s of (r, s1) \<Rightarrow>
        (case r of
           Resolved v \<Rightarrow> (Resolved v, s1, [Invoke_original args])
         | Pending \<Rightarrow> (Pending, s1, [Invoke_original args])
         | Rejected error \<Rightarrow>
             (case error of
                Nullish \<Rightarrow>
                  (Rejected (Reason None ''TypeError''), s1, [Invoke_original args])
              | Reason st msg \<Rightarrow>
                  if st = Some 401 then
                    (case fetchNewToken s1 of (t, s2) \<Rightarrow>
                       (case t of
                          Resolved u \<Rightarrow>
                            (case original args s2 of (r2, s3) \<Rightarrow>
                               (r2, s3, [Invoke_original args, Invoke_fetchNewToken,
                                         Invoke_original args]))
                        | Rejected e \<Rightarrow>
                            (Rejected e, s2, [Invoke_original args, Invoke_fetchNewToken])
                        | Pending \<Rightarrow>
                            (Pending, s2, [Invoke_original args, Invoke_fetchNewToken])))
                  else (Rejected error, s1, [Invoke_original args]))))"

section \<open>JavaScript objects behind the asset cache store\<close>

text \<open>
  \<^verbatim>\<open>this.state\<close> and its \<^verbatim>\<open>AssetsMap\<close> values are ordinary JavaScript objects, so a
  read \<^verbatim>\<open>o[k]\<close> that finds no own property goes on along the prototype chain, and
  \<^verbatim>\<open>this.state[appId]\<close> can be an object that is not a submap (\<^verbatim>\<open>Object.prototype\<close> for
  \<^verbatim>\<open>__proto__\<close>, a function for \<^verbatim>\<open>toString\<close>). The values that a property can hold:
\<close>

type_synonym addr = nat

datatype jsval = Undefined | Null | Str string | Num int | Bool bool | Ref addr

text \<open>
  An object: its own data properties, the objects of its prototype chain (nearest
  first), whether Vue observes it (it carries \<^verbatim>\<open>__ob__\<close>), and the keys on which a plain
  assignment to this object throws (a property that is not writable).
\<close>

record obj =
  props :: "string \<rightharpoonup> jsval"
  protos :: "addr list"
  observed :: bool
  readonly :: "string set"

text \<open>
  The object graph: the heap, the addresses of \<^verbatim>\<open>this.state\<close>, of \<^verbatim>\<open>Object.prototype\<close>
  and of the prototypes of the primitive wrappers, and the next unused address.
\<close>

record store =
  heap :: "addr \<Rightarrow> obj"
  root :: addr
  object_prototype :: addr
  string_prototype :: addr
  number_prototype :: addr
  boolean_prototype :: addr
  next_free :: addr

text \<open>The first own data property named \<open>k\<close> along a chain of objects.\<close>

fun find_prop :: "(addr \<Rightarrow> obj) \<Rightarrow> addr list \<Rightarrow> string \<Rightarrow> jsval option" where
  "find_prop h [] k = None"
| "find_prop h (a # as) k =
     (case props (h a) k of Some v \<Rightarrow> Some v | None \<Rightarrow> find_prop h as k)"

text \<open>
  The read \<^verbatim>\<open>o[k]\<close> on the object at \<open>a\<close>. \<^verbatim>\<open>__proto__\<close> is an accessor of
  \<^verbatim>\<open>Object.prototype\<close>: where no data property of that name is found and the chain
  reaches \<^verbatim>\<open>Object.prototype\<close>, the read yields the prototype of the object read from.
\<close>

definition get_ref :: "store \<Rightarrow> addr \<Rightarrow> string \<Rightarrow> jsval" where
  "get_ref st a k =
     (case find_prop (heap st) (a # protos (heap st a)) k of
        Some v \<Rightarrow> v
      | None \<Rightarrow>
          if k = ''__proto__'' \<and> object_prototype st \<in> set (a # protos (heap st a))
          then (case protos (heap st a) of [] \<Rightarrow> Null | p # ps \<Rightarrow> Ref p)
          else Undefined)"





text \<open>JavaScript's truthiness, as \<^verbatim>\<open>x ? ... : ...\<close>, \<^verbatim>\<open>!x\<close> and \<^verbatim>\<open>!!x\<close> test it.\<close>

fun truthy :: "jsval \<Rightarrow> bool" where
  "truthy Undefined = False"
| "truthy Null = False"
| "truthy (Str s) = (s \<noteq> [])"
| "truthy (Num n) = (n \<noteq> 0)"
| "truthy (Bool b) = b"
| "truthy (Ref a) = True"

section \<open>Asset cache store (PlatformAppAssetsService state)\<close>

type_synonym Checksum = string





text \<open>
  \<^verbatim>\<open>Vue.set\<close> is library code outside the sources. The two definitions below give what
  Vue 2's \<^verbatim>\<open>set\<close> does at the two calls that \<^verbatim>\<open>ADD_ASSET\<close> makes.

  \<^verbatim>\<open>Vue.set(this.state, appId, {})\<close>: the state of a stateful service is observed, so the
  key becomes (or stays) an own property of \<^verbatim>\<open>this.state\<close>, holding the new empty
  object, which is observed from then on.
\<close>

definition Vue_set_fresh :: "store \<Rightarrow> string \<Rightarrow> store" where
  "Vue_set_fresh st key =
     (let a = next_free st;
          fresh = \<lparr> props = Map.empty,
                    protos = object_prototype st # protos (heap st (object_prototype st)),
                    observed = True,
                    readonly = {} \<rparr>;
          h1 = (heap st)(a := fresh);
          state_obj = h1 (root st)
      in st\<lparr> heap := h1(root st := state_obj\<lparr>props := (props state_obj)(key \<mapsto> Ref a)\<rparr>),
             next_free := Suc a \<rparr>)"

text \<open>
  \<^verbatim>\<open>Vue.set(target, key, val)\<close> with a string \<open>val\<close>:
  \<^item> a primitive target makes \<^verbatim>\<open>key in target\<close> throw a \<^verbatim>\<open>TypeError\<close>;
  \<^item> on an observed object the key becomes (or stays) an own property holding \<open>val\<close>;
  \<^item> on an object without observer the call is the assignment \<^verbatim>\<open>target[key] = val\<close>: it
    throws on a key that is not writable, it runs the \<^verbatim>\<open>__proto__\<close> setter, which ignores
    a string, where the key is \<^verbatim>\<open>__proto__\<close> and resolves to the accessor, and otherwise
    it sets the own property.
\<close>

definition set_own :: "store \<Rightarrow> addr \<Rightarrow> string \<Rightarrow> jsval \<Rightarrow> store" where
  "set_own st a key v =
     st\<lparr>heap := (heap st)(a := (heap st a)\<lparr>props := (props (heap st a))(key \<mapsto> v)\<rparr>)\<rparr>"

fun Vue_set_string :: "store \<Rightarrow> jsval \<Rightarrow> string \<Rightarrow> string \<Rightarrow> reason + store" where
  "Vue_set_string st (Ref a) key val =
     (if observed (heap st a) then Inr (set_own st a key (Str val))
      else if key \<in> readonly (heap st a) then Inl (Reason None ''TypeError'')
      else if key = ''__proto__'' \<and>
              find_prop (heap st) (a # protos (heap st a)) key = None \<and>
              object_prototype st \<in> set (a # protos (heap st a))
      then Inr st
      else Inr (set_own st a key (Str val)))"
| "Vue_set_string st target key val = Inl (Reason None ''TypeError'')"

text \<open>
  The mutation \<^verbatim>\<open>ADD_ASSET\<close>: \<^verbatim>\<open>if (!this.state[appId]) Vue.set(this.state, appId, {});
  Vue.set(this.state[appId], assetName, checksum)\<close>. An exception of the second call
  leaves the store as it was, since then the first call was not made.
\<close>

definition ADD_ASSET :: "string \<Rightarrow> string \<Rightarrow> string \<Rightarrow> store \<Rightarrow> reason + store" where
  "ADD_ASSET appId assetName checksum st =
     (let st1 = (if \<not> truthy (get_ref st (root st) appId) then Vue_set_fresh st appId else st)
      in Vue_set_string st1 (get_ref st1 (root st1) appId) assetName checksum)"





section \<open>The outside world of the downloader and the orchestrator\<close>

type_synonym bytes = "8 word list"

text \<open>
  What \<^verbatim>\<open>reader.read()\<close> yields before the end of the stream: a chunk, or a rejection.
  A response body is the finite list of these; reading past its end yields
  \<^verbatim>\<open>{done: true}\<close>.
\<close>

datatype read_result = Chunk bytes | Fault reason

record response =
  status :: int
  body :: "read_result list option"

text \<open>The Fetch API's \<^verbatim>\<open>Response.ok\<close>: the status is in the range 200 to 299.\<close>

definition ok :: "response \<Rightarrow> bool" where
  "ok resp = (200 \<le> status resp \<and> status resp \<le> 299)"

datatype fetch_result = Fetched response | Fetch_failed reason

record ILoadedApp =
  app_id :: string

text \<open>
  The collaborators that are not part of the modelled files: the network, the failure
  behaviour of the filesystem, the digest, Node's \<^verbatim>\<open>path\<close> module, Electron's user-data
  path and \<^verbatim>\<open>PlatformAppsService\<close>.
\<close>

record env =
  fetch :: "string \<Rightarrow> fetch_result"
  write_error :: "string \<Rightarrow> reason option"
  mkdirp_error :: "string \<Rightarrow> reason option"
  read_error :: "string \<Rightarrow> reason option"
  md5_hex :: "bytes \<Rightarrow> string"
  userData :: string
  path_join :: "string list \<Rightarrow> string"
  path_basename :: "string \<Rightarrow> string"
  platformAppsService_getApp :: "string \<Rightarrow> ILoadedApp option"
  platformAppsService_getAssetUrl :: "string \<Rightarrow> string \<Rightarrow> string"

datatype event =
    Ev_fetch string
  | Ev_read
  | Ev_writeFileSync string bytes
  | Ev_mkdirp string
  | Ev_createReadStream string
  | Ev_ADD_ASSET string string Checksum
  | Ev_unhandled reason

text \<open>
  The mutable world: file contents by path, the directories made, the object graph of
  the service's \<^verbatim>\<open>this.state\<close>, and the trace of effects performed so far, oldest
  first.
\<close>

record world =
  files :: "string \<rightharpoonup> bytes"
  dirs :: "string set"
  state :: store
  trace :: "event list"

definition log :: "event \<Rightarrow> world \<Rightarrow> world" where
  "log e w = w\<lparr>trace := trace w @ [e]\<rparr>"

section \<open>downloadFile\<close>

text \<open>\<^verbatim>\<open>c.set(src, off)\<close> on a typed array, for a source that fits.\<close>

definition set_bytes :: "bytes \<Rightarrow> bytes \<Rightarrow> nat \<Rightarrow> bytes" where
  "set_bytes c src off = take off c @ src @ drop (off + length src) c"

definition concatUint8Arrays :: "bytes \<Rightarrow> bytes \<Rightarrow> bytes" where
  "concatUint8Arrays a b =
     (let c = replicate (length a + length b) 0;
          c1 = set_bytes c a 0
      in set_bytes c1 b (length a))"

text \<open>
  \<^verbatim>\<open>fs.writeFileSync(dstPath, result)\<close> either throws and leaves the files alone, or
  replaces the contents at \<^verbatim>\<open>dstPath\<close>.
\<close>

definition writeFileSync :: "env \<Rightarrow> string \<Rightarrow> bytes \<Rightarrow> world \<Rightarrow> reason + world" where
  "writeFileSync env dstPath content w =
     (case write_error env dstPath of
        Some e \<Rightarrow> Inl e
      | None \<Rightarrow>
          Inr (log (Ev_writeFileSync dstPath content)
                 (w\<lparr>files := (files w)(dstPath \<mapsto> content)\<rparr>)))"

text \<open>
  The callback \<^verbatim>\<open>readStream\<close>, run on each result of \<^verbatim>\<open>reader.read()\<close>. The result
  component is the state of the promise that \<^verbatim>\<open>downloadFile\<close> returns: it is settled
  only by the call \<^verbatim>\<open>resolve()\<close> after the write. A rejected read and a throwing write
  reject a promise of the inner chain, which nothing observes (\<^verbatim>\<open>reject\<close> is never
  called), so the returned promise stays pending.
\<close>

fun readStream ::
  "env \<Rightarrow> string \<Rightarrow> read_result list \<Rightarrow> bytes \<Rightarrow> world \<Rightarrow> unit outcome \<times> world" where
  "readStream env dstPath [] result w =
     (case writeFileSync env dstPath result (log Ev_read w) of
        Inl e \<Rightarrow> (Pending, log (Ev_unhandled e) (log Ev_read w))
      | Inr w' \<Rightarrow> (Resolved (), w'))"
| "readStream env dstPath (Chunk v # rest) result w =
     readStream env dstPath rest (concatUint8Arrays result v) (log Ev_read w)"
| "readStream env dstPath (Fault e # rest) result w =
     (Pending, log (Ev_unhandled e) (log Ev_read w))"

text \<open>
  \<^verbatim>\<open>downloadFile\<close>: the executor of the returned promise starts
  \<^verbatim>\<open>fetch(srcUrl).then(resp => resp.ok ? Promise.resolve(resp) : Promise.reject(resp)).then(...)\<close>
  and its return value is dropped. A failed fetch, a response that is not ok and a
  response without a body reject the inner chain only.
\<close>

definition downloadFile :: "env \<Rightarrow> string \<Rightarrow> string \<Rightarrow> world \<Rightarrow> unit outcome \<times> world" where
  "downloadFile env srcUrl dstPath w =
     (let w1 = log (Ev_fetch srcUrl) w
      in case fetch env srcUrl of
           Fetch_failed e \<Rightarrow> (Pending, log (Ev_unhandled e) w1)
         | Fetched resp \<Rightarrow>
             if ok resp then
               (case body resp of
                  None \<Rightarrow> (Pending, log (Ev_unhandled (Reason None ''TypeError'')) w1)
                | Some stream \<Rightarrow> readStream env dstPath stream [] w1)
             else (Pending, log (Ev_unhandled (Reason (Some (status resp)) ''Response'')) w1))"

section \<open>getChecksum\<close>

text \<open>
  \<^verbatim>\<open>getChecksum\<close> opens a read stream on the file, feeds every data event to an MD5
  hash and resolves with the hex digest at the end; an error event rejects.
\<close>

definition getChecksum :: "env \<Rightarrow> string \<Rightarrow> world \<Rightarrow> string outcome \<times> world" where
  "getChecksum env filePath w =
     (let w1 = log (Ev_createReadStream filePath) w
      in case files w filePath of
           None \<Rightarrow> (Rejected (Reason None ''ENOENT''), w1)
         | Some content \<Rightarrow>
             (case read_error env filePath of
                Some e \<Rightarrow> (Rejected e, w1)
              | None \<Rightarrow> (Resolved (md5_hex env content), w1)))"

section \<open>addPlatformAppAsset\<close>

text \<open>The private \<^verbatim>\<open>getApp\<close>: throws \<^verbatim>\<open>Error(`Invalid app: ${appId}`)\<close> for a falsy app.\<close>

definition getApp :: "env \<Rightarrow> string \<Rightarrow> reason + ILoadedApp" where
  "getApp env appId =
     (case platformAppsService_getApp env appId of
        None \<Rightarrow> Inl (Reason None (''Invalid app: '' @ appId))
      | Some app \<Rightarrow> Inr app)"

definition ensureAssets :: "env \<Rightarrow> ILoadedApp \<Rightarrow> world \<Rightarrow> string outcome \<times> world" where
  "ensureAssets env app w =
     (let appAssetsDir = path_join env [userData env, ''Media'', ''Apps'', app_id app]
      in case mkdirp_error env appAssetsDir of
           Some e \<Rightarrow> (Rejected e, log (Ev_mkdirp appAssetsDir) w)
         | None \<Rightarrow>
             (Resolved appAssetsDir,
              log (Ev_mkdirp appAssetsDir) (w\<lparr>dirs := insert appAssetsDir (dirs w)\<rparr>)))"

text \<open>
  \<^verbatim>\<open>getAssetsTargetDirectory\<close> is an async function: the exception of \<^verbatim>\<open>getApp\<close>
  becomes the rejection of its promise.
\<close>

definition getAssetsTargetDirectory :: "env \<Rightarrow> string \<Rightarrow> world \<Rightarrow> string outcome \<times> world" where
  "getAssetsTargetDirectory env appId w =
     (case getApp env appId of
        Inl e \<Rightarrow> (Rejected e, w)
      | Inr app \<Rightarrow> ensureAssets env app w)"

text \<open>
  \<^verbatim>\<open>addPlatformAppAsset(appId, assetUrl, force)\<close>. Each \<^verbatim>\<open>await\<close> passes a rejection on as
  the rejection of the whole call and never returns from a promise that stays pending.
  The checksum is recorded under \<^verbatim>\<open>assetUrl\<close> as given; an exception of the mutation
  rejects the call.
\<close>

definition addPlatformAppAsset ::
  "env \<Rightarrow> string \<Rightarrow> string \<Rightarrow> bool \<Rightarrow> world \<Rightarrow> string outcome \<times> world" where
  "addPlatformAppAsset env appId assetUrl force w =
     (let originalUrl = platformAppsService_getAssetUrl env appId assetUrl
      in case getAssetsTargetDirectory env appId w of (d, w1) \<Rightarrow>
           (case d of
              Rejected e \<Rightarrow> (Rejected e, w1)
            | Pending \<Rightarrow> (Pending, w1)
            | Resolved assetsDir \<Rightarrow>
                (let filePath = path_join env [assetsDir, path_basename env originalUrl]
                 in case downloadFile env originalUrl filePath w1 of (dl, w2) \<Rightarrow>
                      (case dl of
                         Rejected e \<Rightarrow> (Rejected e, w2)
                       | Pending \<Rightarrow> (Pending, w2)
                       | Resolved u \<Rightarrow>
                           (case getChecksum env filePath w2 of (c, w3) \<Rightarrow>
                              (case c of
                                 Rejected e \<Rightarrow> (Rejected e, w3)
                               | Pending \<Rightarrow> (Pending, w3)
                               | Resolved checksum \<Rightarrow>
                                   (case ADD_ASSET appId assetUrl checksum (state w3) of
                                      Inl e \<Rightarrow> (Rejected e, w3)
                                    | Inr st' \<Rightarrow>
                                        (Resolved filePath,
                                         log (Ev_ADD_ASSET appId assetUrl checksum)
                                           (w3\<lparr>state := st'\<rparr>)))))))))"

text \<open>The completed \<^verbatim>\<open>ADD_ASSET\<close> calls found in a trace, oldest first.\<close>

fun recorded :: "event list \<Rightarrow> (string \<times> string \<times> Checksum) list" where
  "recorded [] = []"
| "recorded (Ev_ADD_ASSET appId assetName checksum # evs) =
     (appId, assetName, checksum) # recorded evs"
| "recorded (ev # evs) = recorded evs"

section \<open>Concrete inputs\<close>

text \<open>
  A wrapped method over a world that is the number of token refreshes made so far: the
  first token has expired, every later one is accepted. A second method whose token is
  refused before and after a refresh, with different reasons. A refresh that resolves.
\<close>

definition expired_once :: "string \<Rightarrow> nat \<Rightarrow> string outcome \<times> nat" where
  "expired_once args n =
     (if n = 0 then (Rejected (Reason (Some 401) ''token expired''), n)
      else (Resolved (''channel of '' @ args), n))"

definition always_refused :: "string \<Rightarrow> nat \<Rightarrow> string outcome \<times> nat" where
  "always_refused args n =
     (if n = 0 then (Rejected (Reason (Some 401) ''token expired''), n)
      else (Rejected (Reason (Some 401) ''token revoked''), n))"

definition refresh_ok :: "nat \<Rightarrow> unit outcome \<times> nat" where
  "refresh_ok n = (Resolved (), Suc n)"

text \<open>Stand-ins for \<^verbatim>\<open>path.join\<close> and \<^verbatim>\<open>path.basename\<close> on normalised POSIX segments.\<close>

fun join_segments :: "string list \<Rightarrow> string" where
  "join_segments [] = ''.''"
| "join_segments [s] = s"
| "join_segments (s # t # ss) = s @ ''/'' @ join_segments (t # ss)"

definition last_segment :: "string \<Rightarrow> string" where
  "last_segment s = rev (takeWhile (\<lambda>c. c \<noteq> CHR ''/'') (rev s))"

text \<open>
  An environment with one loaded application, \<^verbatim>\<open>app-1\<close>, whose asset
  \<^verbatim>\<open>transition.mp4\<close> is served in two chunks and whose other assets are answered with
  status 404. The digest is a stand-in that tells the served bytes from all others.
\<close>

definition demo_env :: env where
  "demo_env =
     \<lparr> fetch = (\<lambda>url. if url = ''https://cdn.example/app-1/transition.mp4''
                       then Fetched \<lparr>status = 200, body = Some [Chunk [1, 2], Chunk [3]]\<rparr>
                       else Fetched \<lparr>status = 404, body = Some [Chunk [78, 111]]\<rparr>),
       write_error = (\<lambda>p. None),
       mkdirp_error = (\<lambda>p. None),
       read_error = (\<lambda>p. None),
       md5_hex = (\<lambda>content. if content = [1, 2, 3]
                              then ''5289df737df57326fcdd22597afb1fac''
                              else ''d41d8cd98f00b204e9800998ecf8427e''),
       userData = ''/data'',
       path_join = join_segments,
       path_basename = last_segment,
       platformAppsService_getApp =
         (\<lambda>appId. if appId = ''app-1'' then Some \<lparr>app_id = ''app-1''\<rparr> else None),
       platformAppsService_getAssetUrl =
         (\<lambda>appId asset. ''https://cdn.example/'' @ appId @ ''/'' @ asset) \<rparr>"

text \<open>The same environment with a disk that fails every read.\<close>

definition failing_read_env :: env where
  "failing_read_env = demo_env\<lparr>read_error := (\<lambda>p. Some (Reason None ''EIO''))\<rparr>"

text \<open>
  A small runtime: \<^verbatim>\<open>Object.prototype\<close> at 0 with \<^verbatim>\<open>constructor\<close> and \<^verbatim>\<open>toString\<close>,
  \<^verbatim>\<open>this.state\<close> at 1, the prototypes of the string, number and boolean wrappers at 2, 3
  and 4, the functions \<^verbatim>\<open>Object\<close> and \<^verbatim>\<open>toString\<close> at 5 and 6, and \<^verbatim>\<open>Function.prototype\<close>
  at 7. The table is empty.
\<close>

definition blank :: obj where
  "blank = \<lparr> props = Map.empty, protos = [], observed = False, readonly = {} \<rparr>"

definition runtime_heap :: "addr \<Rightarrow> obj" where
  "runtime_heap =
     (\<lambda>a. blank)
       (0 := blank\<lparr>props := [''constructor'' \<mapsto> Ref 5, ''toString'' \<mapsto> Ref 6]\<rparr>,
        1 := blank\<lparr>protos := [0], observed := True\<rparr>,
        2 := blank\<lparr>protos := [0]\<rparr>,
        3 := blank\<lparr>protos := [0]\<rparr>,
        4 := blank\<lparr>protos := [0]\<rparr>,
        5 := blank\<lparr>props := [''length'' \<mapsto> Num 1, ''name'' \<mapsto> Str ''Object''],
                   protos := [7, 0], readonly := {''length'', ''name''}\<rparr>,
        6 := blank\<lparr>props := [''length'' \<mapsto> Num 0, ''name'' \<mapsto> Str ''toString''],
                   protos := [7, 0], readonly := {''length'', ''name''}\<rparr>,
        7 := blank\<lparr>protos := [0]\<rparr>)"

definition empty_store :: store where
  "empty_store =
     \<lparr> heap = runtime_heap, root = 1, object_prototype = 0, string_prototype = 2,
       number_prototype = 3, boolean_prototype = 4, next_free = 8 \<rparr>"



text \<open>A table that already holds a checksum for \<^verbatim>\<open>transition.mp4\<close> of \<^verbatim>\<open>app-1\<close>.\<close>

definition stale_entry_state :: store where
  "stale_entry_state =
     empty_store
       \<lparr> heap := runtime_heap
           (1 := blank\<lparr>props := [''app-1'' \<mapsto> Ref 8], protos := [0], observed := True\<rparr>,
            8 := blank\<lparr>props := [''transition.mp4'' \<mapsto> Str ''9e107d9d372bb6826bd81d3542a419d6''],
                       protos := [0], observed := True\<rparr>),
         next_free := 9 \<rparr>"

text \<open>A world with an earlier download of \<^verbatim>\<open>missing.mp4\<close> on disk and an empty table.\<close>

definition demo_world :: world where
  "demo_world =
     \<lparr> files = [''/data/Media/Apps/app-1/missing.mp4'' \<mapsto> [7, 7]],
       dirs = {},
       state = empty_store,
       trace = [] \<rparr>"

section \<open>Properties of the asset cache store\<close>



























section \<open>Properties of the retry decorator\<close>

text \<open>
  Claim C2. When the wrapped method rejects with status 401, the refresh resolves and
  the second invocation resolves with \<open>v\<close>, the decorated method resolves with \<open>v\<close>
  after exactly three invocations: the method with the caller's arguments, one refresh,
  the method with the same arguments.
\<close>

theorem requiresToken_refresh_then_success:
  assumes "original args s = (Rejected (Reason (Some 401) msg), s1)"
    and "fetchNewToken s1 = (Resolved u, s2)"
    and "original args s2 = (Resolved v, s3)"
  shows "requiresToken original fetchNewToken args s =
           (Resolved v, s3, [Invoke_original args, Invoke_fetchNewToken, Invoke_original args])"
  using assms by (simp add: requiresToken_def)

theorem requiresToken_refresh_then_success_witness:
  "expired_once ''me'' 0 = (Rejected (Reason (Some 401) ''token expired''), 0) \<and>
   refresh_ok 0 = (Resolved (), 1) \<and>
   expired_once ''me'' 1 = (Resolved ''channel of me'', 1) \<and>
   requiresToken expired_once refresh_ok ''me'' 0 =
     (Resolved ''channel of me'', 1,
      [Invoke_original ''me'', Invoke_fetchNewToken, Invoke_original ''me''])"
proof -
  have a: "expired_once ''me'' 0 = (Rejected (Reason (Some 401) ''token expired''), 0)"
    by (simp add: expired_once_def)
  have b: "refresh_ok 0 = (Resolved (), 1)"
    by (simp add: refresh_ok_def)
  have c: "expired_once ''me'' 1 = (Resolved ''channel of me'', 1)"
    by (simp add: expired_once_def)
  from requiresToken_refresh_then_success
    [where original = expired_once and fetchNewToken = refresh_ok, OF a b c] a b c show ?thesis by simp
qed

text \<open>
  Claim C3. When the wrapped method rejects with status 401, the refresh resolves and
  the replay rejects with status 401 again, the decorated method rejects with the
  reason of the replay as it is, after exactly three invocations: the method, one
  refresh, the method once more. There is no further retry.
\<close>

theorem requiresToken_refresh_then_failure:
  assumes "original args s = (Rejected (Reason (Some 401) msg), s1)"
    and "fetchNewToken s1 = (Resolved u, s2)"
    and "original args s2 = (Rejected (Reason (Some 401) msg2), s3)"
  shows "requiresToken original fetchNewToken args s =
           (Rejected (Reason (Some 401) msg2), s3,
            [Invoke_original args, Invoke_fetchNewToken, Invoke_original args])"
  using assms by (simp add: requiresToken_def)

theorem requiresToken_refresh_then_failure_witness:
  "always_refused ''me'' 0 = (Rejected (Reason (Some 401) ''token expired''), 0) \<and>
   refresh_ok 0 = (Resolved (), 1) \<and>
   always_refused ''me'' 1 = (Rejected (Reason (Some 401) ''token revoked''), 1) \<and>
   requiresToken always_refused refresh_ok ''me'' 0 =
     (Rejected (Reason (Some 401) ''token revoked''), 1,
      [Invoke_original ''me'', Invoke_fetchNewToken, Invoke_original ''me''])"
proof -
  have a: "always_refused ''me'' 0 = (Rejected (Reason (Some 401) ''token expired''), 0)"
    by (simp add: always_refused_def)
  have b: "refresh_ok 0 = (Resolved (), 1)"
    by (simp add: refresh_ok_def)
  have c: "always_refused ''me'' 1 = (Rejected (Reason (Some 401) ''token revoked''), 1)"
    by (simp add: always_refused_def)
  from requiresToken_refresh_then_failure
    [where original = always_refused and fetchNewToken = refresh_ok, OF a b c] a b c show ?thesis by simp
qed

section \<open>Properties of downloadFile\<close>

lemma set_bytes_whole: "length src = length c \<Longrightarrow> set_bytes c src 0 = src"
  by (simp add: set_bytes_def)

lemma concatUint8Arrays_append: "concatUint8Arrays a b = a @ b"
  by (simp add: concatUint8Arrays_def set_bytes_def Let_def)

lemma readStream_Resolved:
  "readStream env dstPath stream result w = (Resolved u, w') \<Longrightarrow>
   \<exists>chunks. stream = map Chunk chunks \<and> write_error env dstPath = None \<and>
     files w' = (files w)(dstPath \<mapsto> result @ concat chunks) \<and>
     trace w' = trace w @ replicate (Suc (length chunks)) Ev_read @
                  [Ev_writeFileSync dstPath (result @ concat chunks)] \<and>
     dirs w' = dirs w \<and> state w' = state w"
proof (induction env dstPath stream result w rule: readStream.induct)
  case (1 env dstPath result w)
  then have "write_error env dstPath = None"
    and "w' = log (Ev_writeFileSync dstPath result)
                ((log Ev_read w)\<lparr>files := (files (log Ev_read w))(dstPath \<mapsto> result)\<rparr>)"
    by (simp_all add: writeFileSync_def split: option.splits)
  then have "write_error env dstPath = None"
    and "files w' = (files w)(dstPath \<mapsto> result @ concat [])"
    and "trace w' = trace w @ replicate (Suc (length ([] :: bytes list))) Ev_read @
                  [Ev_writeFileSync dstPath (result @ concat [])]"
    and "dirs w' = dirs w" and "state w' = state w"
    by (simp_all add: log_def)
  moreover have "[] = map Chunk ([] :: bytes list)" by simp
  ultimately show ?case by blast
next
  case (2 env dstPath v rest result w)
  from "2.prems" have "readStream env dstPath rest (concatUint8Arrays result v) (log Ev_read w)
      = (Resolved u, w')" by simp
  from "2.IH" [OF this] obtain chunks where c: "rest = map Chunk chunks"
    "write_error env dstPath = None"
    "files w' = (files (log Ev_read w))(dstPath \<mapsto> concatUint8Arrays result v @ concat chunks)"
    "trace w' = trace (log Ev_read w) @ replicate (Suc (length chunks)) Ev_read @
                     [Ev_writeFileSync dstPath (concatUint8Arrays result v @ concat chunks)]"
    "dirs w' = dirs (log Ev_read w)" "state w' = state (log Ev_read w)"
    by blast
  have "Chunk v # rest = map Chunk (v # chunks)" using c(1) by simp
  moreover have "files w' = (files w)(dstPath \<mapsto> result @ concat (v # chunks))"
    using c(3) by (simp add: log_def concatUint8Arrays_append)
  moreover have "trace w' = trace w @ replicate (Suc (length (v # chunks))) Ev_read @
                     [Ev_writeFileSync dstPath (result @ concat (v # chunks))]"
    using c(4) by (simp add: log_def concatUint8Arrays_append)
  moreover have "dirs w' = dirs w" "state w' = state w"
    using c(5,6) by (simp_all add: log_def)
  ultimately show ?case using c(2) by (intro exI [where x = "v # chunks"]) simp
next
  case (3 env dstPath e rest result w)
  then show ?case by simp
qed

lemma readStream_chunks:
  "write_error env dstPath = None \<Longrightarrow>
   fst (readStream env dstPath (map Chunk chunks) result w) = Resolved ()"
  by (induction chunks arbitrary: result w)
     (simp_all add: writeFileSync_def)


text \<open>
  Claim C1. A response that is not ok makes the inner promise chain reject, but the
  promise that \<^verbatim>\<open>downloadFile\<close> returns is settled by nothing: \<^verbatim>\<open>reject\<close> is never called.
  Fetching \<^verbatim>\<open>missing.mp4\<close>, answered with status 404, leaves the returned promise
  pending; the existing file at the destination is untouched and the rejection is
  unhandled.
\<close>

theorem downloadFile_404_never_settles:
  "fst (downloadFile demo_env ''https://cdn.example/app-1/missing.mp4''
          ''/data/Media/Apps/app-1/missing.mp4'' demo_world) = Pending \<and>
   files (snd (downloadFile demo_env ''https://cdn.example/app-1/missing.mp4''
          ''/data/Media/Apps/app-1/missing.mp4'' demo_world)) = files demo_world \<and>
   trace (snd (downloadFile demo_env ''https://cdn.example/app-1/missing.mp4''
          ''/data/Media/Apps/app-1/missing.mp4'' demo_world)) =
     [Ev_fetch ''https://cdn.example/app-1/missing.mp4'',
      Ev_unhandled (Reason (Some 404) ''Response'')]"
  by (simp add: downloadFile_def demo_env_def demo_world_def ok_def log_def Let_def)

lemma downloadFile_not_ok:
  "fetch env srcUrl = Fetched resp \<Longrightarrow> \<not> ok resp \<Longrightarrow>
   fst (downloadFile env srcUrl dstPath w) = Pending \<and>
   files (snd (downloadFile env srcUrl dstPath w)) = files w"
  by (simp add: downloadFile_def log_def Let_def)

lemma downloadFile_never_rejects:
  "fst (downloadFile env srcUrl dstPath w) \<noteq> Rejected e"
proof -
  have "fst (readStream env dstPath stream result w') \<noteq> Rejected e" for stream result w'
    by (induction env dstPath stream result w' rule: readStream.induct)
       (simp_all split: sum.splits)
  then show ?thesis
    by (simp add: downloadFile_def Let_def split: fetch_result.splits option.splits)
qed

text \<open>
  A response that is ok, whose body is a sequence of chunks, downloaded to a writable
  destination, does resolve.
\<close>

lemma downloadFile_chunks_resolves:
  "fetch env srcUrl = Fetched resp \<Longrightarrow> ok resp \<Longrightarrow>
   body resp = Some (map Chunk chunks) \<Longrightarrow> write_error env dstPath = None \<Longrightarrow>
   fst (downloadFile env srcUrl dstPath w) = Resolved ()"
  by (simp add: downloadFile_def Let_def readStream_chunks)

text \<open>
  Claim C8. Whenever \<^verbatim>\<open>downloadFile\<close> resolves, the response body was a sequence of
  chunks ended by the end-of-stream signal; the effects were the fetch, one read per
  chunk and one for the end of the stream, and then a single \<^verbatim>\<open>writeFileSync\<close> of the
  chunks concatenated in arrival order; the destination holds that buffer, every other
  file is as before, and the value resolved with is the unit value.
\<close>

theorem downloadFile_resolved:
  assumes "downloadFile env srcUrl dstPath w = (Resolved u, w')"
  shows "\<exists>resp chunks.
           fetch env srcUrl = Fetched resp \<and> body resp = Some (map Chunk chunks) \<and>
           u = () \<and>
           trace w' = trace w @ [Ev_fetch srcUrl] @ replicate (Suc (length chunks)) Ev_read @
                        [Ev_writeFileSync dstPath (concat chunks)] \<and>
           files w' = (files w)(dstPath \<mapsto> concat chunks)"
proof -
  from assms obtain resp stream where r: "fetch env srcUrl = Fetched resp"
    "body resp = Some stream"
    "readStream env dstPath stream [] (log (Ev_fetch srcUrl) w) = (Resolved u, w')"
    by (auto simp: downloadFile_def Let_def split: fetch_result.splits option.splits if_splits)
  from readStream_Resolved [OF r(3)] obtain chunks where c: "stream = map Chunk chunks"
    "files w' = (files (log (Ev_fetch srcUrl) w))(dstPath \<mapsto> [] @ concat chunks)"
    "trace w' = trace (log (Ev_fetch srcUrl) w) @ replicate (Suc (length chunks)) Ev_read @
                  [Ev_writeFileSync dstPath ([] @ concat chunks)]"
    by blast
  have "body resp = Some (map Chunk chunks)" using r(2) c(1) by simp
  moreover have "trace w' = trace w @ [Ev_fetch srcUrl] @
      replicate (Suc (length chunks)) Ev_read @ [Ev_writeFileSync dstPath (concat chunks)]"
    using c(3) by (simp add: log_def)
  moreover have "files w' = (files w)(dstPath \<mapsto> concat chunks)"
    using c(2) by (simp add: log_def)
  ultimately show ?thesis using r(1) by (intro exI [where x = resp] exI [where x = chunks]) simp
qed

theorem downloadFile_resolved_witness:
  "downloadFile demo_env ''https://cdn.example/app-1/transition.mp4''
     ''/data/Media/Apps/app-1/transition.mp4'' demo_world =
     (Resolved (),
      demo_world\<lparr>files := (files demo_world)(''/data/Media/Apps/app-1/transition.mp4'' \<mapsto> [1, 2, 3]),
                 trace := [Ev_fetch ''https://cdn.example/app-1/transition.mp4'',
                           Ev_read, Ev_read, Ev_read,
                           Ev_writeFileSync ''/data/Media/Apps/app-1/transition.mp4'' [1, 2, 3]]\<rparr>) \<and>
   (\<exists>resp chunks.
      fetch demo_env ''https://cdn.example/app-1/transition.mp4'' = Fetched resp \<and>
      body resp = Some (map Chunk chunks) \<and>
      trace (demo_world\<lparr>files := (files demo_world)(''/data/Media/Apps/app-1/transition.mp4'' \<mapsto> [1, 2, 3]),
                 trace := [Ev_fetch ''https://cdn.example/app-1/transition.mp4'',
                           Ev_read, Ev_read, Ev_read,
                           Ev_writeFileSync ''/data/Media/Apps/app-1/transition.mp4'' [1, 2, 3]]\<rparr>) =
        trace demo_world @ [Ev_fetch ''https://cdn.example/app-1/transition.mp4''] @
          replicate (Suc (length chunks)) Ev_read @
          [Ev_writeFileSync ''/data/Media/Apps/app-1/transition.mp4'' (concat chunks)])"
proof -
  have run: "downloadFile demo_env ''https://cdn.example/app-1/transition.mp4''
     ''/data/Media/Apps/app-1/transition.mp4'' demo_world =
     (Resolved (),
      demo_world\<lparr>files := (files demo_world)(''/data/Media/Apps/app-1/transition.mp4'' \<mapsto> [1, 2, 3]),
                 trace := [Ev_fetch ''https://cdn.example/app-1/transition.mp4'',
                           Ev_read, Ev_read, Ev_read,
                           Ev_writeFileSync ''/data/Media/Apps/app-1/transition.mp4'' [1, 2, 3]]\<rparr>)"
    by (simp add: downloadFile_def demo_env_def demo_world_def ok_def log_def Let_def
        writeFileSync_def concatUint8Arrays_append)
  from downloadFile_resolved [OF run] run show ?thesis by blast
qed

section \<open>Properties of addPlatformAppAsset\<close>

lemma recorded_append: "recorded (xs @ ys) = recorded xs @ recorded ys"
  by (induction xs rule: recorded.induct) simp_all

lemma readStream_state:
  "state (snd (readStream env dstPath stream result w)) = state w \<and>
   recorded (trace (snd (readStream env dstPath stream result w))) = recorded (trace w)"
  by (induction env dstPath stream result w rule: readStream.induct)
     (simp_all add: writeFileSync_def log_def recorded_append split: option.splits)

lemma downloadFile_state:
  "state (snd (downloadFile env srcUrl dstPath w)) = state w \<and>
   recorded (trace (snd (downloadFile env srcUrl dstPath w))) = recorded (trace w)"
  by (simp add: downloadFile_def Let_def readStream_state log_def recorded_append
      split: fetch_result.splits option.splits)

lemma getChecksum_state:
  "state (snd (getChecksum env filePath w)) = state w \<and>
   recorded (trace (snd (getChecksum env filePath w))) = recorded (trace w)"
  by (simp add: getChecksum_def Let_def log_def recorded_append split: option.splits)

lemma getAssetsTargetDirectory_state:
  "state (snd (getAssetsTargetDirectory env appId w)) = state w \<and>
   recorded (trace (snd (getAssetsTargetDirectory env appId w))) = recorded (trace w)"
  by (simp add: getAssetsTargetDirectory_def ensureAssets_def Let_def log_def recorded_append
      split: sum.splits option.splits)

text \<open>
  Claim C4. For an application identifier that \<^verbatim>\<open>platformAppsService.getApp\<close> does not
  know, \<^verbatim>\<open>addPlatformAppAsset\<close> rejects with the error \<^verbatim>\<open>Invalid app: <appId>\<close> and the
  world is what it was: no file, no directory, no table entry and no effect in the trace.
\<close>

theorem addPlatformAppAsset_unknown_app:
  "platformAppsService_getApp env appId = None \<Longrightarrow>
   addPlatformAppAsset env appId assetUrl force w =
     (Rejected (Reason None (''Invalid app: '' @ appId)), w)"
  by (simp add: addPlatformAppAsset_def getAssetsTargetDirectory_def getApp_def)

theorem addPlatformAppAsset_unknown_app_witness:
  "platformAppsService_getApp demo_env ''ghost'' = None \<and>
   addPlatformAppAsset demo_env ''ghost'' ''transition.mp4'' False demo_world =
     (Rejected (Reason None ''Invalid app: ghost''), demo_world)"
proof -
  have a: "platformAppsService_getApp demo_env ''ghost'' = None"
    by (simp add: demo_env_def)
  from addPlatformAppAsset_unknown_app [OF a, of "''transition.mp4''" False demo_world] a
  show ?thesis by simp
qed

text \<open>
  Claim C5. Whenever \<^verbatim>\<open>addPlatformAppAsset\<close> does not resolve, the table is the table
  from before the call and the call completed no \<^verbatim>\<open>ADD_ASSET\<close>.
\<close>

theorem addPlatformAppAsset_failure_keeps_state:
  assumes "\<forall>p. fst (addPlatformAppAsset env appId assetUrl force w) \<noteq> Resolved p"
  shows "state (snd (addPlatformAppAsset env appId assetUrl force w)) = state w \<and>
         recorded (trace (snd (addPlatformAppAsset env appId assetUrl force w)))
           = recorded (trace w)"
proof -
  let ?url = "platformAppsService_getAssetUrl env appId assetUrl"
  obtain d w1 where d: "getAssetsTargetDirectory env appId w = (d, w1)"
    by (cases "getAssetsTargetDirectory env appId w")
  from getAssetsTargetDirectory_state [of env appId w] d
  have w1: "state w1 = state w" "recorded (trace w1) = recorded (trace w)" by simp_all
  show ?thesis
  proof (cases d)
    case (Resolved assetsDir)
    let ?path = "path_join env [assetsDir, path_basename env ?url]"
    obtain dl w2 where dl: "downloadFile env ?url ?path w1 = (dl, w2)"
      by (cases "downloadFile env ?url ?path w1")
    from downloadFile_state [of env ?url ?path w1] dl w1
    have w2: "state w2 = state w" "recorded (trace w2) = recorded (trace w)" by simp_all
    show ?thesis
    proof (cases dl)
      case dlr: (Resolved u)
      obtain c w3 where c: "getChecksum env ?path w2 = (c, w3)"
        by (cases "getChecksum env ?path w2")
      from getChecksum_state [of env ?path w2] c w2
      have w3: "state w3 = state w" "recorded (trace w3) = recorded (trace w)" by simp_all
      show ?thesis
      proof (cases c)
        case cr: (Resolved checksum)
        with assms d Resolved dl dlr c w3 show ?thesis
          by (simp add: addPlatformAppAsset_def Let_def split: sum.splits)
      qed (use d Resolved dl dlr c w3 in \<open>simp_all add: addPlatformAppAsset_def Let_def\<close>)
    qed (use d Resolved dl w2 in \<open>simp_all add: addPlatformAppAsset_def Let_def\<close>)
  qed (use d w1 in \<open>simp_all add: addPlatformAppAsset_def Let_def\<close>)
qed

theorem addPlatformAppAsset_failure_keeps_state_witness:
  "(\<forall>p. fst (addPlatformAppAsset demo_env ''ghost'' ''transition.mp4'' False demo_world)
          \<noteq> Resolved p) \<and>
   state (snd (addPlatformAppAsset demo_env ''ghost'' ''transition.mp4'' False demo_world))
     = state demo_world \<and>
   (\<forall>p. fst (addPlatformAppAsset demo_env ''app-1'' ''missing.mp4'' False demo_world)
          \<noteq> Resolved p) \<and>
   state (snd (addPlatformAppAsset demo_env ''app-1'' ''missing.mp4'' False demo_world))
     = state demo_world \<and>
   (\<forall>p. fst (addPlatformAppAsset failing_read_env ''app-1'' ''transition.mp4'' False demo_world)
          \<noteq> Resolved p) \<and>
   state (snd (addPlatformAppAsset failing_read_env ''app-1'' ''transition.mp4'' False demo_world))
     = state demo_world"
proof -
  have a: "fst (addPlatformAppAsset demo_env ''ghost'' ''transition.mp4'' False demo_world)
      = Rejected (Reason None ''Invalid app: ghost'')"
    by (simp add: addPlatformAppAsset_def getAssetsTargetDirectory_def getApp_def demo_env_def)
  have b: "fst (addPlatformAppAsset demo_env ''app-1'' ''missing.mp4'' False demo_world)
      = Pending"
    by (simp add: addPlatformAppAsset_def getAssetsTargetDirectory_def getApp_def demo_env_def
        ensureAssets_def downloadFile_def ok_def Let_def)
  have c: "fst (addPlatformAppAsset failing_read_env ''app-1'' ''transition.mp4'' False
                  demo_world) = Rejected (Reason None ''EIO'')"
    by (simp add: addPlatformAppAsset_def getAssetsTargetDirectory_def getApp_def demo_env_def
        failing_read_env_def demo_world_def ensureAssets_def downloadFile_def ok_def Let_def
        log_def writeFileSync_def getChecksum_def last_segment_def concatUint8Arrays_append)
  have a': "\<forall>p. fst (addPlatformAppAsset demo_env ''ghost'' ''transition.mp4'' False
      demo_world) \<noteq> Resolved p" using a by simp
  have b': "\<forall>p. fst (addPlatformAppAsset demo_env ''app-1'' ''missing.mp4'' False
      demo_world) \<noteq> Resolved p" using b by simp
  have c': "\<forall>p. fst (addPlatformAppAsset failing_read_env ''app-1'' ''transition.mp4'' False
      demo_world) \<noteq> Resolved p" using c by simp
  from addPlatformAppAsset_failure_keeps_state [OF a']
    addPlatformAppAsset_failure_keeps_state [OF b']
    addPlatformAppAsset_failure_keeps_state [OF c'] a' b' c'
  show ?thesis by blast
qed

lemma readStream_state_update:
  "readStream env dstPath stream result (w\<lparr>state := c\<rparr>) =
     (fst (readStream env dstPath stream result w),
      (snd (readStream env dstPath stream result w))\<lparr>state := c\<rparr>)"
proof (induction env dstPath stream result w rule: readStream.induct)
  case (2 env dstPath v rest result w)
  have "log Ev_read (w\<lparr>state := c\<rparr>) = (log Ev_read w)\<lparr>state := c\<rparr>"
    by (simp add: log_def)
  with 2 show ?case by simp
qed (simp_all add: writeFileSync_def log_def split: option.splits)

lemma downloadFile_state_update:
  "downloadFile env srcUrl dstPath (w\<lparr>state := c\<rparr>) =
     (fst (downloadFile env srcUrl dstPath w),
      (snd (downloadFile env srcUrl dstPath w))\<lparr>state := c\<rparr>)"
proof -
  have "log (Ev_fetch srcUrl) (w\<lparr>state := c\<rparr>) = (log (Ev_fetch srcUrl) w)\<lparr>state := c\<rparr>"
    by (simp add: log_def)
  then show ?thesis
    by (simp add: downloadFile_def Let_def readStream_state_update
        split: fetch_result.splits option.splits) (simp add: log_def)
qed

lemma getChecksum_state_update:
  "getChecksum env filePath (w\<lparr>state := c\<rparr>) =
     (fst (getChecksum env filePath w), (snd (getChecksum env filePath w))\<lparr>state := c\<rparr>)"
  by (simp add: getChecksum_def Let_def log_def split: option.splits)

lemma getAssetsTargetDirectory_state_update:
  "getAssetsTargetDirectory env appId (w\<lparr>state := c\<rparr>) =
     (fst (getAssetsTargetDirectory env appId w),
      (snd (getAssetsTargetDirectory env appId w))\<lparr>state := c\<rparr>)"
  by (simp add: getAssetsTargetDirectory_def ensureAssets_def Let_def log_def
      split: sum.splits option.splits)

lemma ADD_ASSET_isl_checksum:
  "isl (ADD_ASSET appId assetName cs st) = isl (ADD_ASSET appId assetName cs' st)"
proof -
  have "isl (Vue_set_string s v k x) = isl (Vue_set_string s v k y)" for s v k x y
    by (cases v) simp_all
  then show ?thesis by (simp add: ADD_ASSET_def Let_def)
qed

lemma addPlatformAppAsset_state_update:
  assumes "\<not> isl (ADD_ASSET appId assetUrl cs (state w))"
    and "\<not> isl (ADD_ASSET appId assetUrl cs c)"
  shows "fst (addPlatformAppAsset env appId assetUrl force (w\<lparr>state := c\<rparr>))
           = fst (addPlatformAppAsset env appId assetUrl force w) \<and>
         trace (snd (addPlatformAppAsset env appId assetUrl force (w\<lparr>state := c\<rparr>)))
           = trace (snd (addPlatformAppAsset env appId assetUrl force w)) \<and>
         files (snd (addPlatformAppAsset env appId assetUrl force (w\<lparr>state := c\<rparr>)))
           = files (snd (addPlatformAppAsset env appId assetUrl force w)) \<and>
         dirs (snd (addPlatformAppAsset env appId assetUrl force (w\<lparr>state := c\<rparr>)))
           = dirs (snd (addPlatformAppAsset env appId assetUrl force w))"
proof -
  let ?url = "platformAppsService_getAssetUrl env appId assetUrl"
  obtain d w1 where d: "getAssetsTargetDirectory env appId w = (d, w1)"
    by (cases "getAssetsTargetDirectory env appId w")
  then have d': "getAssetsTargetDirectory env appId (w\<lparr>state := c\<rparr>) = (d, w1\<lparr>state := c\<rparr>)"
    by (simp add: getAssetsTargetDirectory_state_update)
  from getAssetsTargetDirectory_state [of env appId w] d
  have w1: "state w1 = state w" by simp
  show ?thesis
  proof (cases d)
    case (Resolved assetsDir)
    let ?path = "path_join env [assetsDir, path_basename env ?url]"
    obtain dl w2 where dl: "downloadFile env ?url ?path w1 = (dl, w2)"
      by (cases "downloadFile env ?url ?path w1")
    then have dl': "downloadFile env ?url ?path (w1\<lparr>state := c\<rparr>) = (dl, w2\<lparr>state := c\<rparr>)"
      by (simp add: downloadFile_state_update)
    from downloadFile_state [of env ?url ?path w1] dl w1
    have w2: "state w2 = state w" by simp
    show ?thesis
    proof (cases dl)
      case dlr: (Resolved u)
      obtain k w3 where k: "getChecksum env ?path w2 = (k, w3)"
        by (cases "getChecksum env ?path w2")
      then have k': "getChecksum env ?path (w2\<lparr>state := c\<rparr>) = (k, w3\<lparr>state := c\<rparr>)"
        by (simp add: getChecksum_state_update)
      from getChecksum_state [of env ?path w2] k w2
      have w3: "state w3 = state w" by simp
      show ?thesis
      proof (cases k)
        case kr: (Resolved checksum)
        from assms ADD_ASSET_isl_checksum [of appId assetUrl cs _ checksum]
        obtain s1 s2 where "ADD_ASSET appId assetUrl checksum (state w) = Inr s1"
          "ADD_ASSET appId assetUrl checksum c = Inr s2"
          by (metis sum.collapse(2))
        with d d' Resolved dl dl' dlr k k' kr w3 show ?thesis
          by (simp add: addPlatformAppAsset_def Let_def log_def)
      qed (use d d' Resolved dl dl' dlr k k' in \<open>simp_all add: addPlatformAppAsset_def Let_def\<close>)
    qed (use d d' Resolved dl dl' in \<open>simp_all add: addPlatformAppAsset_def Let_def\<close>)
  qed (use d d' in \<open>simp_all add: addPlatformAppAsset_def Let_def\<close>)
qed

lemma addPlatformAppAsset_force:
  "addPlatformAppAsset env appId assetUrl force w
     = addPlatformAppAsset env appId assetUrl force' w"
  by (simp add: addPlatformAppAsset_def)

lemma readStream_trace_extends:
  "\<exists>evs. trace (snd (readStream env dstPath stream result w)) = trace w @ evs"
proof (induction env dstPath stream result w rule: readStream.induct)
  case (2 env dstPath v rest result w)
  then obtain evs where
    "trace (snd (readStream env dstPath rest (concatUint8Arrays result v) (log Ev_read w)))
       = trace (log Ev_read w) @ evs"
    by blast
  then have "trace (snd (readStream env dstPath (Chunk v # rest) result w))
               = trace w @ (Ev_read # evs)"
    by (simp add: log_def)
  then show ?case by blast
qed (simp_all add: writeFileSync_def log_def split: option.splits)

lemma downloadFile_fetches:
  "\<exists>evs. trace (snd (downloadFile env srcUrl dstPath w)) = trace w @ Ev_fetch srcUrl # evs"
proof -
  have r: "\<exists>evs. trace (snd (readStream env dstPath stream [] (log (Ev_fetch srcUrl) w)))
      = trace w @ Ev_fetch srcUrl # evs" for stream
    using readStream_trace_extends [of env dstPath stream "[]" "log (Ev_fetch srcUrl) w"]
    by (simp add: log_def)
  show ?thesis
  proof (cases "fetch env srcUrl")
    case (Fetched resp)
    show ?thesis
    proof (cases "ok resp")
      case True
      show ?thesis
      proof (cases "body resp")
        case None
        with Fetched True show ?thesis by (simp add: downloadFile_def Let_def log_def)
      next
        case (Some stream)
        with Fetched True r [of stream] show ?thesis by (simp add: downloadFile_def Let_def)
      qed
    next
      case False
      with Fetched show ?thesis by (simp add: downloadFile_def Let_def log_def)
    qed
  next
    case (Fetch_failed e)
    then show ?thesis by (simp add: downloadFile_def Let_def log_def)
  qed
qed

lemma addPlatformAppAsset_fetches:
  assumes "platformAppsService_getApp env appId = Some app"
    and "mkdirp_error env (path_join env [userData env, ''Media'', ''Apps'', app_id app]) = None"
  shows "\<exists>evs. trace (snd (addPlatformAppAsset env appId assetUrl force w)) =
           trace w @ Ev_mkdirp (path_join env [userData env, ''Media'', ''Apps'', app_id app]) #
             Ev_fetch (platformAppsService_getAssetUrl env appId assetUrl) # evs"
proof -
  let ?url = "platformAppsService_getAssetUrl env appId assetUrl"
  let ?dir = "path_join env [userData env, ''Media'', ''Apps'', app_id app]"
  let ?path = "path_join env [?dir, path_basename env ?url]"
  let ?w1 = "log (Ev_mkdirp ?dir) (w\<lparr>dirs := insert ?dir (dirs w)\<rparr>)"
  have d: "getAssetsTargetDirectory env appId w = (Resolved ?dir, ?w1)"
    using assms by (simp add: getAssetsTargetDirectory_def getApp_def ensureAssets_def Let_def)
  obtain dl w2 where dl: "downloadFile env ?url ?path ?w1 = (dl, w2)"
    by (cases "downloadFile env ?url ?path ?w1")
  from downloadFile_fetches [of env ?url ?path ?w1] dl
  obtain evs where e: "trace w2 = trace w @ Ev_mkdirp ?dir # Ev_fetch ?url # evs"
    by (auto simp: log_def)
  show ?thesis
  proof (cases dl)
    case (Resolved u)
    obtain k w3 where k: "getChecksum env ?path w2 = (k, w3)"
      by (cases "getChecksum env ?path w2")
    then have t3: "trace w3 = trace w2 @ [Ev_createReadStream ?path]"
      by (auto simp: getChecksum_def Let_def log_def split: option.splits)
    from d dl Resolved k e t3 show ?thesis
      by (cases k) (auto simp: addPlatformAppAsset_def Let_def log_def split: sum.splits)
  qed (use d dl e in \<open>simp_all add: addPlatformAppAsset_def Let_def\<close>)
qed

lemma download_settled_facts:
  assumes "downloadFile env srcUrl dstPath w = (Resolved u, w')"
  obtains chunks where
    "trace w' = trace w @ [Ev_fetch srcUrl] @ replicate (Suc (length chunks)) Ev_read @
                  [Ev_writeFileSync dstPath (concat chunks)]"
    "files w' = (files w)(dstPath \<mapsto> concat chunks)"
    "dirs w' = dirs w" "state w' = state w"
proof -
  from assms obtain stream where
    r: "readStream env dstPath stream [] (log (Ev_fetch srcUrl) w) = (Resolved u, w')"
    by (auto simp: downloadFile_def Let_def split: fetch_result.splits option.splits if_splits)
  from readStream_Resolved [OF r] obtain chunks where c:
    "files w' = (files (log (Ev_fetch srcUrl) w))(dstPath \<mapsto> [] @ concat chunks)"
    "trace w' = trace (log (Ev_fetch srcUrl) w) @ replicate (Suc (length chunks)) Ev_read @
                  [Ev_writeFileSync dstPath ([] @ concat chunks)]"
    "dirs w' = dirs (log (Ev_fetch srcUrl) w)" "state w' = state (log (Ev_fetch srcUrl) w)"
    by blast
  show ?thesis
  proof (rule that [of chunks])
    show "trace w' = trace w @ [Ev_fetch srcUrl] @ replicate (Suc (length chunks)) Ev_read @
                  [Ev_writeFileSync dstPath (concat chunks)]"
      using c(2) by (simp add: log_def)
    show "files w' = (files w)(dstPath \<mapsto> concat chunks)" using c(1) by (simp add: log_def)
    show "dirs w' = dirs w" "state w' = state w" using c(3,4) by (simp_all add: log_def)
  qed
qed

lemma addPlatformAppAsset_Resolved_steps:
  assumes "addPlatformAppAsset env appId assetUrl force w = (Resolved p, w')"
  shows "\<exists>app chunks.
           platformAppsService_getApp env appId = Some app \<and>
           p = path_join env
                 [path_join env [userData env, ''Media'', ''Apps'', app_id app],
                  path_basename env (platformAppsService_getAssetUrl env appId assetUrl)] \<and>
           trace w' = trace w @
             [Ev_mkdirp (path_join env [userData env, ''Media'', ''Apps'', app_id app]),
              Ev_fetch (platformAppsService_getAssetUrl env appId assetUrl)] @
             replicate (Suc (length chunks)) Ev_read @
             [Ev_writeFileSync p (concat chunks), Ev_createReadStream p,
              Ev_ADD_ASSET appId assetUrl (md5_hex env (concat chunks))] \<and>
           files w' = (files w)(p \<mapsto> concat chunks) \<and>
           ADD_ASSET appId assetUrl (md5_hex env (concat chunks)) (state w) = Inr (state w')"
proof -
  let ?url = "platformAppsService_getAssetUrl env appId assetUrl"
  obtain d w1 where d: "getAssetsTargetDirectory env appId w = (d, w1)"
    by (cases "getAssetsTargetDirectory env appId w")
  with assms obtain assetsDir where dr: "d = Resolved assetsDir"
    by (cases d) (simp_all add: addPlatformAppAsset_def Let_def)
  from d dr obtain app where app: "platformAppsService_getApp env appId = Some app"
    "assetsDir = path_join env [userData env, ''Media'', ''Apps'', app_id app]"
    "w1 = log (Ev_mkdirp assetsDir) (w\<lparr>dirs := insert assetsDir (dirs w)\<rparr>)"
    by (auto simp: getAssetsTargetDirectory_def getApp_def ensureAssets_def Let_def
        split: option.splits)
  let ?path = "path_join env [assetsDir, path_basename env ?url]"
  obtain dl w2 where dl: "downloadFile env ?url ?path w1 = (dl, w2)"
    by (cases "downloadFile env ?url ?path w1")
  with assms d dr obtain u where dlr: "dl = Resolved u"
    by (cases dl) (simp_all add: addPlatformAppAsset_def Let_def)
  from dl dlr obtain chunks where c:
    "trace w2 = trace w1 @ [Ev_fetch ?url] @ replicate (Suc (length chunks)) Ev_read @
                  [Ev_writeFileSync ?path (concat chunks)]"
    "files w2 = (files w1)(?path \<mapsto> concat chunks)" "state w2 = state w1"
    by (auto elim: download_settled_facts)
  obtain k w3 where k: "getChecksum env ?path w2 = (k, w3)"
    by (cases "getChecksum env ?path w2")
  with assms d dr dl dlr obtain checksum where kr: "k = Resolved checksum"
    by (cases k) (simp_all add: addPlatformAppAsset_def Let_def)
  from k kr c(2) have k3: "checksum = md5_hex env (concat chunks)"
    "w3 = log (Ev_createReadStream ?path) w2"
    by (auto simp: getChecksum_def Let_def split: option.splits)
  from assms d dr dl dlr k kr obtain st' where a:
    "ADD_ASSET appId assetUrl checksum (state w3) = Inr st'"
    "p = ?path" "w' = log (Ev_ADD_ASSET appId assetUrl checksum) (w3\<lparr>state := st'\<rparr>)"
    by (auto simp: addPlatformAppAsset_def Let_def split: sum.splits)
  have "trace w' = trace w @ [Ev_mkdirp assetsDir, Ev_fetch ?url] @
             replicate (Suc (length chunks)) Ev_read @
             [Ev_writeFileSync p (concat chunks), Ev_createReadStream p,
              Ev_ADD_ASSET appId assetUrl (md5_hex env (concat chunks))]"
    using a(2,3) k3 c(1) app(3) by (simp add: log_def)
  moreover have "files w' = (files w)(p \<mapsto> concat chunks)"
    using a(2,3) k3 c(2) app(3) by (simp add: log_def)
  moreover have "ADD_ASSET appId assetUrl (md5_hex env (concat chunks)) (state w) = Inr (state w')"
    using a(1,3) k3 c(3) app(3) by (simp add: log_def)
  ultimately show ?thesis using app(1,2) a(2) by blast
qed

text \<open>
  Claim C9. \<^verbatim>\<open>addPlatformAppAsset\<close> never reads \<^verbatim>\<open>force\<close>: the flag changes nothing. For a
  known application whose directory can be made, the call makes the directory and then
  fetches the asset URL, whatever the flag and the table. Two calls on tables on which
  the final \<^verbatim>\<open>ADD_ASSET\<close> does not throw, such as a table with and a table without an
  earlier entry for the same application and asset, settle the same way with the same
  effects in the same order and leave the same files and directories. A call that
  resolves has made the directory, fetched, read every chunk, written the file once,
  computed the checksum of the written bytes and completed \<^verbatim>\<open>ADD_ASSET\<close> with it.
\<close>

theorem addPlatformAppAsset_ignores_force_and_cache:
  "addPlatformAppAsset env appId assetUrl force w
     = addPlatformAppAsset env appId assetUrl force' w \<and>
   (platformAppsService_getApp env appId = Some app \<longrightarrow>
    mkdirp_error env (path_join env [userData env, ''Media'', ''Apps'', app_id app]) = None \<longrightarrow>
      (\<exists>evs. trace (snd (addPlatformAppAsset env appId assetUrl force w)) =
         trace w @ Ev_mkdirp (path_join env [userData env, ''Media'', ''Apps'', app_id app]) #
           Ev_fetch (platformAppsService_getAssetUrl env appId assetUrl) # evs)) \<and>
   (\<not> isl (ADD_ASSET appId assetUrl cs (state w)) \<longrightarrow>
    \<not> isl (ADD_ASSET appId assetUrl cs c) \<longrightarrow>
      fst (addPlatformAppAsset env appId assetUrl force (w\<lparr>state := c\<rparr>))
        = fst (addPlatformAppAsset env appId assetUrl force' w) \<and>
      trace (snd (addPlatformAppAsset env appId assetUrl force (w\<lparr>state := c\<rparr>)))
        = trace (snd (addPlatformAppAsset env appId assetUrl force' w)) \<and>
      files (snd (addPlatformAppAsset env appId assetUrl force (w\<lparr>state := c\<rparr>)))
        = files (snd (addPlatformAppAsset env appId assetUrl force' w)) \<and>
      dirs (snd (addPlatformAppAsset env appId assetUrl force (w\<lparr>state := c\<rparr>)))
        = dirs (snd (addPlatformAppAsset env appId assetUrl force' w))) \<and>
   (addPlatformAppAsset env appId assetUrl force w = (Resolved p, w') \<longrightarrow>
      (\<exists>app chunks.
         platformAppsService_getApp env appId = Some app \<and>
         p = path_join env
               [path_join env [userData env, ''Media'', ''Apps'', app_id app],
                path_basename env (platformAppsService_getAssetUrl env appId assetUrl)] \<and>
         trace w' = trace w @
           [Ev_mkdirp (path_join env [userData env, ''Media'', ''Apps'', app_id app]),
            Ev_fetch (platformAppsService_getAssetUrl env appId assetUrl)] @
           replicate (Suc (length chunks)) Ev_read @
           [Ev_writeFileSync p (concat chunks), Ev_createReadStream p,
            Ev_ADD_ASSET appId assetUrl (md5_hex env (concat chunks))] \<and>
         files w' = (files w)(p \<mapsto> concat chunks) \<and>
         ADD_ASSET appId assetUrl (md5_hex env (concat chunks)) (state w) = Inr (state w')))"
proof (intro conjI impI)
  show "addPlatformAppAsset env appId assetUrl force w
          = addPlatformAppAsset env appId assetUrl force' w"
    by (rule addPlatformAppAsset_force)
next
  assume "platformAppsService_getApp env appId = Some app"
    and "mkdirp_error env (path_join env [userData env, ''Media'', ''Apps'', app_id app]) = None"
  then show "\<exists>evs. trace (snd (addPlatformAppAsset env appId assetUrl force w)) =
         trace w @ Ev_mkdirp (path_join env [userData env, ''Media'', ''Apps'', app_id app]) #
           Ev_fetch (platformAppsService_getAssetUrl env appId assetUrl) # evs"
    by (rule addPlatformAppAsset_fetches)
next
  assume a: "\<not> isl (ADD_ASSET appId assetUrl cs (state w))"
    "\<not> isl (ADD_ASSET appId assetUrl cs c)"
  note u = addPlatformAppAsset_state_update [OF a, of env force]
  note f = addPlatformAppAsset_force [of env appId assetUrl force' w force]
  show "fst (addPlatformAppAsset env appId assetUrl force (w\<lparr>state := c\<rparr>))
        = fst (addPlatformAppAsset env appId assetUrl force' w)"
    and "trace (snd (addPlatformAppAsset env appId assetUrl force (w\<lparr>state := c\<rparr>)))
        = trace (snd (addPlatformAppAsset env appId assetUrl force' w))"
    and "files (snd (addPlatformAppAsset env appId assetUrl force (w\<lparr>state := c\<rparr>)))
        = files (snd (addPlatformAppAsset env appId assetUrl force' w))"
    and "dirs (snd (addPlatformAppAsset env appId assetUrl force (w\<lparr>state := c\<rparr>)))
        = dirs (snd (addPlatformAppAsset env appId assetUrl force' w))"
    using u unfolding f by simp_all
next
  assume "addPlatformAppAsset env appId assetUrl force w = (Resolved p, w')"
  then show "\<exists>app chunks.
         platformAppsService_getApp env appId = Some app \<and>
         p = path_join env
               [path_join env [userData env, ''Media'', ''Apps'', app_id app],
                path_basename env (platformAppsService_getAssetUrl env appId assetUrl)] \<and>
         trace w' = trace w @
           [Ev_mkdirp (path_join env [userData env, ''Media'', ''Apps'', app_id app]),
            Ev_fetch (platformAppsService_getAssetUrl env appId assetUrl)] @
           replicate (Suc (length chunks)) Ev_read @
           [Ev_writeFileSync p (concat chunks), Ev_createReadStream p,
            Ev_ADD_ASSET appId assetUrl (md5_hex env (concat chunks))] \<and>
         files w' = (files w)(p \<mapsto> concat chunks) \<and>
         ADD_ASSET appId assetUrl (md5_hex env (concat chunks)) (state w) = Inr (state w')"
    by (rule addPlatformAppAsset_Resolved_steps)
qed

theorem addPlatformAppAsset_ignores_force_and_cache_witness:
  "platformAppsService_getApp demo_env ''app-1'' = Some \<lparr>app_id = ''app-1''\<rparr> \<and>
   mkdirp_error demo_env
     (path_join demo_env [userData demo_env, ''Media'', ''Apps'', ''app-1'']) = None \<and>
   \<not> isl (ADD_ASSET ''app-1'' ''transition.mp4'' ''5289df737df57326fcdd22597afb1fac''
            (state demo_world)) \<and>
   \<not> isl (ADD_ASSET ''app-1'' ''transition.mp4'' ''5289df737df57326fcdd22597afb1fac''
            stale_entry_state) \<and>
   fst (addPlatformAppAsset demo_env ''app-1'' ''transition.mp4'' True
          (demo_world\<lparr>state := stale_entry_state\<rparr>))
     = Resolved ''/data/Media/Apps/app-1/transition.mp4'' \<and>
   trace (snd (addPlatformAppAsset demo_env ''app-1'' ''transition.mp4'' True
          (demo_world\<lparr>state := stale_entry_state\<rparr>)))
     = [Ev_mkdirp ''/data/Media/Apps/app-1'',
        Ev_fetch ''https://cdn.example/app-1/transition.mp4'',
        Ev_read, Ev_read, Ev_read,
        Ev_writeFileSync ''/data/Media/Apps/app-1/transition.mp4'' [1, 2, 3],
        Ev_createReadStream ''/data/Media/Apps/app-1/transition.mp4'',
        Ev_ADD_ASSET ''app-1'' ''transition.mp4'' ''5289df737df57326fcdd22597afb1fac'']"
proof -
  have g: "platformAppsService_getApp demo_env ''app-1'' = Some \<lparr>app_id = ''app-1''\<rparr>"
    by (simp add: demo_env_def)
  have m: "mkdirp_error demo_env
     (path_join demo_env [userData demo_env, ''Media'', ''Apps'', ''app-1'']) = None"
    by (simp add: demo_env_def)
  have a1: "\<not> isl (ADD_ASSET ''app-1'' ''transition.mp4'' ''5289df737df57326fcdd22597afb1fac''
            (state demo_world))"
    by (simp add: ADD_ASSET_def get_ref_def Vue_set_fresh_def demo_world_def empty_store_def
        runtime_heap_def blank_def Let_def)
  have a2: "\<not> isl (ADD_ASSET ''app-1'' ''transition.mp4'' ''5289df737df57326fcdd22597afb1fac''
            stale_entry_state)"
    by (simp add: ADD_ASSET_def get_ref_def stale_entry_state_def empty_store_def
        runtime_heap_def blank_def Let_def)
  have run: "fst (addPlatformAppAsset demo_env ''app-1'' ''transition.mp4'' False demo_world)
       = Resolved ''/data/Media/Apps/app-1/transition.mp4'' \<and>
     trace (snd (addPlatformAppAsset demo_env ''app-1'' ''transition.mp4'' False demo_world))
       = [Ev_mkdirp ''/data/Media/Apps/app-1'',
          Ev_fetch ''https://cdn.example/app-1/transition.mp4'',
          Ev_read, Ev_read, Ev_read,
          Ev_writeFileSync ''/data/Media/Apps/app-1/transition.mp4'' [1, 2, 3],
          Ev_createReadStream ''/data/Media/Apps/app-1/transition.mp4'',
          Ev_ADD_ASSET ''app-1'' ''transition.mp4'' ''5289df737df57326fcdd22597afb1fac'']"
    by (simp add: addPlatformAppAsset_def getAssetsTargetDirectory_def getApp_def demo_env_def
        demo_world_def ensureAssets_def downloadFile_def ok_def Let_def log_def
        writeFileSync_def getChecksum_def last_segment_def concatUint8Arrays_append
        ADD_ASSET_def get_ref_def Vue_set_fresh_def empty_store_def runtime_heap_def blank_def)
  from addPlatformAppAsset_ignores_force_and_cache
    [where env = demo_env and appId = "''app-1''" and assetUrl = "''transition.mp4''"
       and force = True and force' = False and w = demo_world and c = stale_entry_state
       and cs = "''5289df737df57326fcdd22597afb1fac''"]
    a1 a2
  have "fst (addPlatformAppAsset demo_env ''app-1'' ''transition.mp4'' True
          (demo_world\<lparr>state := stale_entry_state\<rparr>))
        = fst (addPlatformAppAsset demo_env ''app-1'' ''transition.mp4'' False demo_world)"
    and "trace (snd (addPlatformAppAsset demo_env ''app-1'' ''transition.mp4'' True
          (demo_world\<lparr>state := stale_entry_state\<rparr>)))
        = trace (snd (addPlatformAppAsset demo_env ''app-1'' ''transition.mp4'' False
            demo_world))"
    by blast+
  with run g m a1 a2 show ?thesis by simp
qed

end
